theory Spec2Isabelle
  imports Complex_Main
begin

text \<open>
  A shallow embedding of the beam analysis engine: the validation and diagram utilities
  of \<^verbatim>\<open>src/utils/calculations.ts\<close>, and the \<^verbatim>\<open>BeamAnalysis\<close> component with supports,
  fixed-end moments, torsion and stresses (section properties, reactions, shear, moment,
  torsion, stresses and the sampled diagram). The component's functions are closures
  over its state; here each takes the state as a record. A \<^verbatim>\<open>forEach\<close> that updates
  local variables is a \<open>fold\<close> of its body over the load list.
\<close>

section \<open>JavaScript numbers\<close>

text \<open>
  The program computes with JavaScript numbers. A number is modelled as a real, one of
  the two infinities, or NaN. Finite arithmetic is exact (no rounding to binary64 and no
  overflow) except at the stations of the diagram, where the rounding is written out
  (\<open>rounded\<close>, below), and zero carries no sign: a nonzero finite number divided by zero
  gives the infinity of the dividend's sign, as for \<open>+0\<close>. Everything else follows
  IEEE 754 as JavaScript exposes it: NaN is absorbing, every comparison with NaN is
  false, \<open>0 / 0\<close>, \<open>0 * Infinity\<close> and \<open>Infinity - Infinity\<close> are NaN.
\<close>

datatype number = Fin real | PInf | NInf | NaN

fun signed_inf :: "real \<Rightarrow> number" where
  "signed_inf s = (if s = 0 then NaN else if 0 < s then PInf else NInf)"

instantiation number :: "{plus, minus, uminus, times, inverse, ord}"
begin

fun uminus_number :: "number \<Rightarrow> number" where
  "uminus_number (Fin a) = Fin (- a)"
| "uminus_number PInf = NInf"
| "uminus_number NInf = PInf"
| "uminus_number NaN = NaN"

fun plus_number :: "number \<Rightarrow> number \<Rightarrow> number" where
  "plus_number (Fin a) (Fin b) = Fin (a + b)"
| "plus_number NaN b = NaN"
| "plus_number a NaN = NaN"
| "plus_number PInf NInf = NaN"
| "plus_number NInf PInf = NaN"
| "plus_number PInf b = PInf"
| "plus_number NInf b = NInf"
| "plus_number a PInf = PInf"
| "plus_number a NInf = NInf"

definition minus_number :: "number \<Rightarrow> number \<Rightarrow> number" where
  "minus_number a b = a + (- b)"

fun times_number :: "number \<Rightarrow> number \<Rightarrow> number" where
  "times_number (Fin a) (Fin b) = Fin (a * b)"
| "times_number NaN b = NaN"
| "times_number a NaN = NaN"
| "times_number (Fin a) PInf = signed_inf a"
| "times_number (Fin a) NInf = signed_inf (- a)"
| "times_number PInf (Fin b) = signed_inf b"
| "times_number NInf (Fin b) = signed_inf (- b)"
| "times_number PInf PInf = PInf"
| "times_number PInf NInf = NInf"
| "times_number NInf PInf = NInf"
| "times_number NInf NInf = PInf"

fun divide_number :: "number \<Rightarrow> number \<Rightarrow> number" where
  "divide_number (Fin a) (Fin b) = (if b = 0 then signed_inf a else Fin (a / b))"
| "divide_number NaN b = NaN"
| "divide_number a NaN = NaN"
| "divide_number (Fin a) PInf = Fin 0"
| "divide_number (Fin a) NInf = Fin 0"
| "divide_number PInf (Fin b) = (if 0 \<le> b then PInf else NInf)"
| "divide_number NInf (Fin b) = (if 0 \<le> b then NInf else PInf)"
| "divide_number a b = NaN"

definition inverse_number :: "number \<Rightarrow> number" where
  "inverse_number a = divide (Fin 1) a"

fun less_number :: "number \<Rightarrow> number \<Rightarrow> bool" where
  "less_number (Fin a) (Fin b) = (a < b)"
| "less_number NaN b = False"
| "less_number a NaN = False"
| "less_number a NInf = False"
| "less_number PInf b = False"
| "less_number a PInf = True"
| "less_number NInf b = True"

fun less_eq_number :: "number \<Rightarrow> number \<Rightarrow> bool" where
  "less_eq_number (Fin a) (Fin b) = (a \<le> b)"
| "less_eq_number NaN b = False"
| "less_eq_number a NaN = False"
| "less_eq_number NInf b = True"
| "less_eq_number a PInf = True"
| "less_eq_number a NInf = False"
| "less_eq_number PInf b = False"

instance ..

end

text \<open>\<open>isNaN\<close>, and the truthiness of an optional number (\<open>if (load.length)\<close>):
  \<open>undefined\<close>, \<open>0\<close> and NaN are falsy.\<close>

fun isNaN :: "number \<Rightarrow> bool" where
  "isNaN NaN = True"
| "isNaN a = False"

fun truthy :: "number option \<Rightarrow> bool" where
  "truthy None = False"
| "truthy (Some (Fin a)) = (a \<noteq> 0)"
| "truthy (Some NaN) = False"
| "truthy (Some a) = True"

text \<open>\<open>Math.abs\<close>, \<open>Math.max\<close>, \<open>Math.min\<close> (NaN if an argument is NaN),
  \<open>Math.pow\<close> at a natural exponent, \<open>Math.sqrt\<close>.\<close>

fun Math_abs :: "number \<Rightarrow> number" where
  "Math_abs (Fin a) = Fin \<bar>a\<bar>"
| "Math_abs PInf = PInf"
| "Math_abs NInf = PInf"
| "Math_abs NaN = NaN"

fun Math_max :: "number \<Rightarrow> number \<Rightarrow> number" where
  "Math_max NaN b = NaN"
| "Math_max a NaN = NaN"
| "Math_max a b = (if a < b then b else a)"

fun Math_min :: "number \<Rightarrow> number \<Rightarrow> number" where
  "Math_min NaN b = NaN"
| "Math_min a NaN = NaN"
| "Math_min a b = (if b < a then b else a)"

fun Math_pow :: "number \<Rightarrow> nat \<Rightarrow> number" where
  "Math_pow (Fin a) n = Fin (a ^ n)"
| "Math_pow PInf n = (if n = 0 then Fin 1 else PInf)"
| "Math_pow NInf n = (if n = 0 then Fin 1 else if odd n then NInf else PInf)"
| "Math_pow NaN n = (if n = 0 then Fin 1 else NaN)"

fun Math_sqrt :: "number \<Rightarrow> number" where
  "Math_sqrt (Fin a) = (if a < 0 then NaN else Fin (sqrt a))"
| "Math_sqrt PInf = PInf"
| "Math_sqrt NInf = NaN"
| "Math_sqrt NaN = NaN"

text \<open>
  \<open>Number(x.toFixed(3))\<close>. \<open>toFixed\<close> prints NaN and the infinities by name, a number
  of magnitude at least \<open>10^21\<close> in full, and any other number as its magnitude rounded
  to the nearest multiple of \<open>1/1000\<close>, the larger one on a tie, with the sign in front;
  \<open>Number\<close> reads the string back; the model keeps the decimal the string shows.
\<close>

definition round3 :: "real \<Rightarrow> real" where
  "round3 x = (if 10 ^ 21 \<le> \<bar>x\<bar> then x
               else sgn x * (of_int \<lfloor>\<bar>x\<bar> * 1000 + 1 / 2\<rfloor> / 1000))"

fun toFixed3 :: "number \<Rightarrow> number" where
  "toFixed3 (Fin a) = Fin (round3 a)"
| "toFixed3 a = a"

text \<open>
  Rounding to binary64. Where the stations of the diagram are computed, the quotient
  \<open>beamLength / 100\<close> and the products \<open>i * dx\<close> are rounded as the machine rounds
  them (to the nearest binary64 number, ties to even), because the rounding to three
  decimals that follows can turn the last bit of a station into its last decimal:
  \<open>100 * (1.8125 / 100)\<close> is computed as 1.8124999999999998 and printed as 1.812.

  \<open>exponent x\<close> is the binary exponent of \<open>x\<close>, searched downwards from 1023 and kept
  within the normal range \<open>-1022 .. 1023\<close> (below it the numbers are subnormal and share
  the exponent -1022); \<open>nearest x\<close> is the multiple of \<open>2 ^ (exponent x - 52)\<close> nearest
  to \<open>x\<close>, the one with the even significand on a tie; \<open>binary64 x\<close> is that number, or
  an infinity when it reaches \<open>2 ^ 1024\<close>.
\<close>

definition round_half_even :: "real \<Rightarrow> int" where
  "round_half_even y =
     (let f = \<lfloor>y\<rfloor>; r = y - of_int f
      in if r < 1 / 2 then f else if 1 / 2 < r then f + 1 else if even f then f else f + 1)"

fun exponent_from :: "nat \<Rightarrow> real \<Rightarrow> int" where
  "exponent_from 0 a = - 1022"
| "exponent_from (Suc n) a =
     (if 2 powi (int (Suc n) - 1022) \<le> a then int (Suc n) - 1022 else exponent_from n a)"

definition exponent :: "real \<Rightarrow> int" where
  "exponent x = exponent_from 2045 \<bar>x\<bar>"

definition nearest :: "real \<Rightarrow> real" where
  "nearest x = (let q = 2 powi (exponent x - 52) in q * of_int (round_half_even (x / q)))"

definition binary64 :: "real \<Rightarrow> number" where
  "binary64 x =
     (if 2 ^ 1024 \<le> \<bar>nearest x\<bar> then (if 0 < x then PInf else NInf) else Fin (nearest x))"

fun rounded :: "number \<Rightarrow> number" where
  "rounded (Fin a) = binary64 a"
| "rounded a = a"

section \<open>The utilities: validation\<close>

text \<open>The \<open>Load\<close> of the utilities has three kinds and a mandatory length.\<close>

datatype ULoadType = UPoint | UDistributed | UMoment

record ULoad =
  u_id :: int
  u_type :: ULoadType
  u_position :: number
  u_magnitude :: number
  u_length :: number

text \<open>The four messages of \<open>validateLoad\<close> and the one of \<open>validateBeamLength\<close>; the first
  is a template that quotes the beam length.\<close>

datatype Message =
    BeamLengthPositive
  | PositionBetween number
  | MagnitudeNumber
  | LengthPositive
  | MustFit

record ValidationResult =
  isValid :: bool
  message :: "Message option"

definition validateBeamLength :: "number \<Rightarrow> ValidationResult" where
  "validateBeamLength v =
     (if isNaN v \<or> v \<le> Fin 0
      then \<lparr>isValid = False, message = Some BeamLengthPositive\<rparr>
      else \<lparr>isValid = True, message = None\<rparr>)"

definition validateLoad :: "ULoad \<Rightarrow> number \<Rightarrow> ValidationResult" where
  "validateLoad load bl =
     (if isNaN (u_position load) \<or> u_position load < Fin 0 \<or> u_position load > bl
      then \<lparr>isValid = False, message = Some (PositionBetween bl)\<rparr>
      else if isNaN (u_magnitude load)
      then \<lparr>isValid = False, message = Some MagnitudeNumber\<rparr>
      else if u_type load = UDistributed
      then (if isNaN (u_length load) \<or> u_length load \<le> Fin 0
            then \<lparr>isValid = False, message = Some LengthPositive\<rparr>
            else if u_position load + u_length load > bl
            then \<lparr>isValid = False, message = Some MustFit\<rparr>
            else \<lparr>isValid = True, message = None\<rparr>)
      else \<lparr>isValid = True, message = None\<rparr>)"

text \<open>The rules as the specification words them: beam length finite and positive,
  position finite and within \<open>[0, beamLength]\<close>, magnitude finite, and for a distributed
  load a finite positive length with \<open>position + length \<le> beamLength\<close>.\<close>

fun finite_num :: "number \<Rightarrow> bool" where
  "finite_num (Fin a) = True"
| "finite_num a = False"

definition validateLoad_spec :: "ULoad \<Rightarrow> number \<Rightarrow> bool" where
  "validateLoad_spec load bl \<longleftrightarrow>
     finite_num bl \<and> Fin 0 < bl \<and>
     finite_num (u_position load) \<and> Fin 0 \<le> u_position load \<and> u_position load \<le> bl \<and>
     finite_num (u_magnitude load) \<and>
     (u_type load = UDistributed \<longrightarrow>
        finite_num (u_length load) \<and> Fin 0 < u_length load \<and>
        u_position load + u_length load \<le> bl)"

section \<open>The utilities: shear, moment and diagram of a load list\<close>

fun calculateShear_util_step :: "number \<Rightarrow> ULoad \<Rightarrow> number \<Rightarrow> number" where
  "calculateShear_util_step x load shear =
     (case u_type load of
        UPoint \<Rightarrow> shear + (if x > u_position load then u_magnitude load else Fin 0)
      | UDistributed \<Rightarrow>
          if x \<le> u_position load then shear
          else if x \<le> u_position load + u_length load
          then shear + u_magnitude load * (x - u_position load)
          else shear + u_magnitude load * u_length load
      | UMoment \<Rightarrow> shear)"

definition calculateShear_util :: "number \<Rightarrow> ULoad list \<Rightarrow> number" where
  "calculateShear_util x ls = fold (calculateShear_util_step x) ls (Fin 0)"

fun calculateMoment_util_step :: "number \<Rightarrow> ULoad \<Rightarrow> number \<Rightarrow> number" where
  "calculateMoment_util_step x load moment =
     (case u_type load of
        UPoint \<Rightarrow>
          moment + (if x > u_position load then u_magnitude load * (x - u_position load)
                    else Fin 0)
      | UDistributed \<Rightarrow>
          if x \<le> u_position load then moment
          else if x \<le> u_position load + u_length load
          then (let partialLength = x - u_position load
                in moment + u_magnitude load * partialLength * partialLength / Fin 2)
          else moment + u_magnitude load * u_length load
                 * (x - u_position load - u_length load / Fin 2)
      | UMoment \<Rightarrow> moment + (if x > u_position load then u_magnitude load else Fin 0))"

definition calculateMoment_util :: "number \<Rightarrow> ULoad list \<Rightarrow> number" where
  "calculateMoment_util x ls = fold (calculateMoment_util_step x) ls (Fin 0)"

record UDiagramPoint =
  ud_position :: number
  ud_shear :: number
  ud_moment :: number

definition generateDiagramData_util :: "number \<Rightarrow> ULoad list \<Rightarrow> UDiagramPoint list" where
  "generateDiagramData_util bl ls =
     (let points = 100 :: nat;
          dx = rounded (bl / Fin (real points))
      in map (\<lambda>i. let x = rounded (Fin (real i) * dx)
                   in \<lparr>ud_position = toFixed3 x,
                       ud_shear = toFixed3 (calculateShear_util x ls),
                       ud_moment = toFixed3 (calculateMoment_util x ls)\<rparr>)
             [0 ..< points + 1])"

section \<open>The component: state\<close>

text \<open>The component's \<open>Load\<close> has a fourth kind, torsion, and an optional length.\<close>

datatype LoadType = Point | Distributed | Moment | Torsion

record Load =
  load_id :: int
  load_type :: LoadType
  position :: number
  magnitude :: number
  load_length :: "number option"

datatype Support = Pin | Roller | Fixed

record Reactions =
  reactionA :: number
  reactionB :: number
  momentA :: number
  momentB :: number

record SectionProperties =
  area :: number
  momentOfInertia :: number
  sectionModulus :: number
  polarMomentOfInertia :: number
  torsionalConstant :: number

record Stresses =
  normalStress :: number
  shearStress :: number
  torsionalStress :: number
  vonMisesStress :: number

record DiagramPoint =
  dp_position :: number
  dp_shear :: number
  dp_moment :: number
  dp_torsion :: number
  dp_normalStress :: number
  dp_shearStress :: number
  dp_torsionalStress :: number
  dp_vonMisesStress :: number

text \<open>The state the component's functions close over. \<open>reactions\<close> is itself state: an
  effect stores the result of \<open>calculateReactions\<close> there after each change.\<close>

record BeamAnalysis =
  beamLength :: number
  beamHeight :: number
  beamWidth :: number
  loads :: "Load list"
  startSupportPosition :: number
  endSupportPosition :: number
  startSupport :: Support
  endSupport :: Support
  reactions :: Reactions

section \<open>The component: section properties\<close>

definition calculateSectionProperties :: "BeamAnalysis \<Rightarrow> SectionProperties" where
  "calculateSectionProperties s =
     (let area = Math_max (Fin 0.001) (beamHeight s * beamWidth s);
          momentOfInertia = (beamWidth s * Math_pow (beamHeight s) 3) / Fin 12;
          sectionModulus = (Fin 2 * momentOfInertia) / beamHeight s;
          a = Math_max (beamWidth s) (beamHeight s);
          b = Math_min (beamWidth s) (beamHeight s);
          torsionalConstant =
            a * Math_pow b 3
              * (Fin 1 / Fin 3 - Fin 0.21 * (b / a) * (Fin 1 - Math_pow (b / a) 4 / Fin 12));
          polarMomentOfInertia =
            (beamWidth s * Math_pow (beamHeight s) 3 + beamHeight s * Math_pow (beamWidth s) 3)
              / Fin 12
      in \<lparr>area = area, momentOfInertia = momentOfInertia, sectionModulus = sectionModulus,
          polarMomentOfInertia = polarMomentOfInertia,
          torsionalConstant = torsionalConstant\<rparr>)"

section \<open>The component: reactions\<close>

text \<open>The body of the first loop: the fixed-end moments of a point load between the
  supports.\<close>

definition fixedEndMoment_step :: "BeamAnalysis \<Rightarrow> Load \<Rightarrow> number \<times> number \<Rightarrow> number \<times> number" where
  "fixedEndMoment_step s load m =
     (let span = endSupportPosition s - startSupportPosition s;
          a = position load - startSupportPosition s;
          b = endSupportPosition s - position load
      in if load_type load = Point \<and> a \<ge> Fin 0 \<and> b \<ge> Fin 0
         then (let FEM = (magnitude load * a * b * b) / (span * span)
               in (fst m + FEM, snd m + (- FEM) * (a / b)))
         else m)"

text \<open>The body of the second loop: each load between the supports assigns both
  reactions; a torsion load and a distributed load with a falsy length assign nothing.\<close>

definition reaction_step :: "BeamAnalysis \<Rightarrow> Load \<Rightarrow> number \<times> number \<Rightarrow> number \<times> number" where
  "reaction_step s load r =
     (let span = endSupportPosition s - startSupportPosition s
      in if position load < startSupportPosition s \<or> position load > endSupportPosition s
         then r
         else
           (let relativePosition = position load - startSupportPosition s
            in case load_type load of
                 Point \<Rightarrow>
                   (let reactionB = (Math_abs (magnitude load) * relativePosition) / span
                    in (Math_abs (magnitude load) - reactionB, reactionB))
               | Distributed \<Rightarrow>
                   (case load_length load of
                      None \<Rightarrow> r
                    | Some len \<Rightarrow>
                        if truthy (Some len)
                        then (let startX = Math_max (position load) (startSupportPosition s);
                                  endX = Math_min (position load + len) (endSupportPosition s);
                                  effectiveLength = endX - startX;
                                  totalForce = Math_abs (magnitude load) * effectiveLength;
                                  centerOfForce =
                                    startX + effectiveLength / Fin 2 - startSupportPosition s;
                                  reactionB = (totalForce * centerOfForce) / span
                              in (totalForce - reactionB, reactionB))
                        else r)
               | Moment \<Rightarrow>
                   (let reactionB = magnitude load / span
                    in (- reactionB, reactionB))
               | Torsion \<Rightarrow> r))"

definition fixedEndMoments :: "BeamAnalysis \<Rightarrow> number \<times> number" where
  "fixedEndMoments s =
     (if startSupport s = Fixed \<or> endSupport s = Fixed
      then fold (fixedEndMoment_step s) (loads s) (Fin 0, Fin 0)
      else (Fin 0, Fin 0))"

definition primaryReactions :: "BeamAnalysis \<Rightarrow> number \<times> number" where
  "primaryReactions s = fold (reaction_step s) (loads s) (Fin 0, Fin 0)"

text \<open>The adjustment for fixed supports, from the moments \<open>m\<close> and the reactions \<open>r\<close>.\<close>

definition adjustReactions ::
  "BeamAnalysis \<Rightarrow> number \<times> number \<Rightarrow> number \<times> number \<Rightarrow> number \<times> number" where
  "adjustReactions s m r =
     (let span = endSupportPosition s - startSupportPosition s
      in if startSupport s = Fixed \<and> endSupport s = Fixed
         then (let adjustment = (fst m - snd m) / span
               in (fst r + adjustment, snd r - adjustment))
         else if startSupport s = Fixed
         then (fst r + fst m / span, snd r - fst m / span)
         else if endSupport s = Fixed
         then (fst r + snd m / span, snd r - snd m / span)
         else r)"

definition calculateReactions :: "BeamAnalysis \<Rightarrow> Reactions" where
  "calculateReactions s =
     (let span = endSupportPosition s - startSupportPosition s
      in if span \<le> Fin 0
         then \<lparr>reactionA = Fin 0, reactionB = Fin 0, momentA = Fin 0, momentB = Fin 0\<rparr>
         else (let m = fixedEndMoments s;
                   r = adjustReactions s m (primaryReactions s)
               in \<lparr>reactionA = toFixed3 (fst r), reactionB = toFixed3 (snd r),
                   momentA = toFixed3 (fst m), momentB = toFixed3 (snd m)\<rparr>))"

section \<open>The component: internal forces\<close>

definition torsion_step :: "number \<Rightarrow> Load \<Rightarrow> number \<Rightarrow> number" where
  "torsion_step x load torsion =
     (if load_type load \<noteq> Torsion \<or> position load > x then torsion
      else torsion + magnitude load)"

definition calculateTorsion :: "BeamAnalysis \<Rightarrow> number \<Rightarrow> number" where
  "calculateTorsion s x =
     (if x < startSupportPosition s \<or> x > endSupportPosition s then Fin 0
      else toFixed3 (fold (torsion_step x) (loads s) (Fin 0)))"

definition shear_step :: "number \<Rightarrow> Load \<Rightarrow> number \<Rightarrow> number" where
  "shear_step x load shear =
     (if position load > x then shear
      else case load_type load of
             Point \<Rightarrow> shear - magnitude load
           | Distributed \<Rightarrow>
               (case load_length load of
                  None \<Rightarrow> shear
                | Some len \<Rightarrow>
                    if truthy (Some len)
                    then (let endX = Math_min x (position load + len);
                              effectiveLength = endX - position load
                          in if effectiveLength > Fin 0
                             then shear - magnitude load * effectiveLength
                             else shear)
                    else shear)
           | Moment \<Rightarrow> shear
           | Torsion \<Rightarrow> shear)"

definition calculateShear :: "BeamAnalysis \<Rightarrow> number \<Rightarrow> number" where
  "calculateShear s x =
     (if x < startSupportPosition s \<or> x > endSupportPosition s then Fin 0
      else toFixed3 (fold (shear_step x) (loads s) (reactionA (reactions s))))"

definition moment_step :: "number \<Rightarrow> Load \<Rightarrow> number \<Rightarrow> number" where
  "moment_step x load moment =
     (if position load > x then moment
      else case load_type load of
             Point \<Rightarrow> moment - magnitude load * (x - position load)
           | Distributed \<Rightarrow>
               (case load_length load of
                  None \<Rightarrow> moment
                | Some len \<Rightarrow>
                    if truthy (Some len)
                    then (let endX = Math_min x (position load + len);
                              effectiveLength = endX - position load
                          in if effectiveLength > Fin 0
                             then (let centroid = position load + effectiveLength / Fin 2
                                   in moment - magnitude load * effectiveLength * (x - centroid))
                             else moment)
                    else moment)
           | Moment \<Rightarrow> moment - magnitude load
           | Torsion \<Rightarrow> moment)"

definition calculateMoment :: "BeamAnalysis \<Rightarrow> number \<Rightarrow> number" where
  "calculateMoment s x =
     (if x < startSupportPosition s \<or> x > endSupportPosition s then Fin 0
      else (let moment0 = reactionA (reactions s) * (x - startSupportPosition s);
                moment1 = (if startSupport s = Fixed then moment0 + momentA (reactions s)
                           else moment0)
            in toFixed3 (fold (moment_step x) (loads s) moment1)))"

section \<open>The component: stresses and the diagram\<close>

definition calculateStresses :: "BeamAnalysis \<Rightarrow> number \<Rightarrow> Stresses" where
  "calculateStresses s x =
     (let props = calculateSectionProperties s;
          moment = calculateMoment s x;
          shear = calculateShear s x;
          torsion = calculateTorsion s x;
          normalStress = Math_abs moment / sectionModulus props / Fin 1000000;
          Q = (beamWidth s * beamHeight s * beamHeight s) / Fin 8;
          shearStress =
            Math_abs (shear * Q) / (momentOfInertia props * beamWidth s) / Fin 1000000;
          maxTorsionalStress =
            Math_abs (torsion * beamHeight s) / (Fin 2 * torsionalConstant props) / Fin 1000000;
          vonMisesStress =
            Math_sqrt (Math_pow normalStress 2
                       + Fin 3 * (Math_pow shearStress 2 + Math_pow maxTorsionalStress 2))
      in \<lparr>normalStress = toFixed3 normalStress,
          shearStress = toFixed3 shearStress,
          torsionalStress = toFixed3 maxTorsionalStress,
          vonMisesStress = toFixed3 vonMisesStress\<rparr>)"

definition diagramPoint :: "BeamAnalysis \<Rightarrow> number \<Rightarrow> nat \<Rightarrow> DiagramPoint" where
  "diagramPoint s dx i =
     (let x = toFixed3 (rounded (Fin (real i) * dx));
          stresses = calculateStresses s x
      in \<lparr>dp_position = x,
          dp_shear = calculateShear s x,
          dp_moment = calculateMoment s x,
          dp_torsion = calculateTorsion s x,
          dp_normalStress = normalStress stresses,
          dp_shearStress = shearStress stresses,
          dp_torsionalStress = torsionalStress stresses,
          dp_vonMisesStress = vonMisesStress stresses\<rparr>)"

definition generateDiagramData :: "BeamAnalysis \<Rightarrow> DiagramPoint list" where
  "generateDiagramData s =
     (let points = 100 :: nat;
          dx = rounded (beamLength s / Fin (real points))
      in map (diagramPoint s dx) [0 ..< points + 1])"

text \<open>The effect that follows every change of the inputs: the reactions are recomputed
  and stored.\<close>

definition updateReactions :: "BeamAnalysis \<Rightarrow> BeamAnalysis" where
  "updateReactions s = s\<lparr>reactions := calculateReactions s\<rparr>"

section \<open>Which loads set the reactions\<close>

text \<open>A load is between the supports when the guard at the top of the second loop of
  \<open>calculateReactions\<close> lets it through.\<close>

definition inSpan :: "BeamAnalysis \<Rightarrow> Load \<Rightarrow> bool" where
  "inSpan s load \<longleftrightarrow>
     \<not> (position load < startSupportPosition s \<or> position load > endSupportPosition s)"

text \<open>A load assigns the reactions when it is between the supports and is a point load,
  a moment load or a distributed load with a truthy length.\<close>

definition assigns :: "BeamAnalysis \<Rightarrow> Load \<Rightarrow> bool" where
  "assigns s load \<longleftrightarrow>
     inSpan s load \<and>
     (load_type load = Point \<or> load_type load = Moment \<or>
      (load_type load = Distributed \<and> truthy (load_length load)))"

text \<open>The force the loads apply, as the equilibrium property of the specification sums
  it: the magnitude of each point load and the total force of each distributed load.\<close>

definition appliedForce_spec_step :: "Load \<Rightarrow> number \<Rightarrow> number" where
  "appliedForce_spec_step load force =
     (case load_type load of
        Point \<Rightarrow> force + magnitude load
      | Distributed \<Rightarrow>
          (case load_length load of
             None \<Rightarrow> force
           | Some len \<Rightarrow> force + magnitude load * len)
      | Moment \<Rightarrow> force
      | Torsion \<Rightarrow> force)"

definition appliedForce_spec :: "BeamAnalysis \<Rightarrow> number" where
  "appliedForce_spec s = fold appliedForce_spec_step (loads s) (Fin 0)"

section \<open>Concrete beams\<close>

text \<open>The state the component starts in, and the inputs the theorems below evaluate.\<close>

definition zeroReactions :: Reactions where
  "zeroReactions = \<lparr>reactionA = Fin 0, reactionB = Fin 0, momentA = Fin 0, momentB = Fin 0\<rparr>"

definition pointLoad :: "int \<Rightarrow> real \<Rightarrow> real \<Rightarrow> Load" where
  "pointLoad i p m =
     \<lparr>load_id = i, load_type = Point, position = Fin p, magnitude = Fin m,
      load_length = None\<rparr>"

definition initialBeam :: BeamAnalysis where
  "initialBeam =
     \<lparr>beamLength = Fin 5, beamHeight = Fin 0.2, beamWidth = Fin 0.1,
      loads = [pointLoad 1 2.5 50],
      startSupportPosition = Fin 0, endSupportPosition = Fin 4,
      startSupport = Pin, endSupport = Roller,
      reactions = zeroReactions\<rparr>"

text \<open>Both supports at 2: a span of length zero.\<close>

definition zeroSpan :: BeamAnalysis where
  "zeroSpan = initialBeam\<lparr>startSupportPosition := Fin 2, endSupportPosition := Fin 2\<rparr>"

text \<open>The scenario of the specification: length 5, one point load of 50 at 2.5, a pin
  at 0 and a roller at 5.\<close>

definition scenario :: BeamAnalysis where
  "scenario = initialBeam\<lparr>endSupportPosition := Fin 5\<rparr>"

text \<open>Two point loads of 10, at 1 and at 2, between a pin at 0 and a roller at 4.\<close>

definition twoPointLoads :: BeamAnalysis where
  "twoPointLoads = initialBeam\<lparr>loads := [pointLoad 1 1 10, pointLoad 2 2 10]\<rparr>"

text \<open>A point load of 10 at 2 followed by a torsion load of 5 at 1.\<close>

definition torsionLoad :: Load where
  "torsionLoad =
     \<lparr>load_id = 2, load_type = Torsion, position = Fin 1, magnitude = Fin 5,
      load_length = None\<rparr>"

definition pointThenTorsion :: BeamAnalysis where
  "pointThenTorsion = initialBeam\<lparr>loads := [pointLoad 1 2 10, torsionLoad]\<rparr>"

text \<open>A pin at 0 and a fixed support at 4, with a point load of 10 at 1.\<close>

definition pinFixed :: BeamAnalysis where
  "pinFixed = initialBeam\<lparr>loads := [pointLoad 1 1 10], endSupport := Fixed\<rparr>"

text \<open>The scenario with a cross-section of height zero, reactions stored.\<close>

definition zeroHeight :: BeamAnalysis where
  "zeroHeight = updateReactions (scenario\<lparr>beamHeight := Fin 0\<rparr>)"

text \<open>A beam 7.8125 millimetres long, a length that binary64 holds exactly.\<close>

definition tinyBeam :: BeamAnalysis where
  "tinyBeam = initialBeam\<lparr>beamLength := Fin 0.0078125\<rparr>"

text \<open>A beam of length 1.8125, a length that binary64 holds exactly.\<close>

definition roundingBeam :: BeamAnalysis where
  "roundingBeam = initialBeam\<lparr>beamLength := Fin 1.8125\<rparr>"

text \<open>The initial load followed by a distributed load whose length is 0.\<close>

definition emptyDistributed :: Load where
  "emptyDistributed =
     \<lparr>load_id = 2, load_type = Distributed, position = Fin 1, magnitude = Fin 5,
      load_length = Some (Fin 0)\<rparr>"

definition withEmptyDistributed :: BeamAnalysis where
  "withEmptyDistributed = initialBeam\<lparr>loads := [pointLoad 1 2.5 50, emptyDistributed]\<rparr>"

text \<open>Loads of the utilities: a point load at 0, a point load of infinite magnitude,
  and a distributed load from 1 to 3.\<close>

definition pointAtZero :: ULoad where
  "pointAtZero =
     \<lparr>u_id = 1, u_type = UPoint, u_position = Fin 0, u_magnitude = Fin 1,
      u_length = Fin 0\<rparr>"

definition infiniteMagnitude :: ULoad where
  "infiniteMagnitude =
     \<lparr>u_id = 1, u_type = UPoint, u_position = Fin 1, u_magnitude = PInf,
      u_length = Fin 0\<rparr>"

definition distributedOneToThree :: ULoad where
  "distributedOneToThree =
     \<lparr>u_id = 2, u_type = UDistributed, u_position = Fin 1, u_magnitude = Fin (- 5),
      u_length = Fin 2\<rparr>"

section \<open>Facts about numbers\<close>

lemmas reactions_defs =
  calculateReactions_def primaryReactions_def reaction_step_def fixedEndMoments_def
  fixedEndMoment_step_def adjustReactions_def minus_number_def round3_def Let_def

lemmas beam_defs = initialBeam_def pointLoad_def zeroReactions_def

lemmas moment_defs =
  calculateMoment_def moment_step_def minus_number_def round3_def Let_def

lemma nonneg_iff: "Fin 0 \<le> a \<longleftrightarrow> \<not> isNaN a \<and> \<not> a < Fin 0"
  by (cases a) auto

lemma pos_iff: "Fin 0 < a \<longleftrightarrow> \<not> isNaN a \<and> \<not> a \<le> Fin 0"
  by (cases a) auto

lemma not_greater_iff: "\<not> isNaN a \<Longrightarrow> \<not> a > b \<longleftrightarrow> isNaN b \<or> a \<le> b"
  by (cases a; cases b) auto

lemma add_not_NaN: "Fin 0 \<le> a \<Longrightarrow> Fin 0 < b \<Longrightarrow> \<not> isNaN (a + b)"
  by (cases a; cases b) auto

text \<open>Rounding to three decimals is monotone on the non-negative numbers, and keeps two
  of them apart when they differ by a thousandth or more.\<close>

lemma round3_nonneg:
  "0 \<le> x \<Longrightarrow>
   round3 x = (if 10 ^ 21 \<le> x then x else of_int \<lfloor>x * 1000 + 1 / 2\<rfloor> / 1000)"
  by (cases "x = 0") (simp_all add: round3_def)

lemma round3_mono:
  assumes "0 \<le> x" "x \<le> y"
  shows "round3 x \<le> round3 y"
proof -
  have y0: "0 \<le> y" using assms by simp
  consider "10 ^ 21 \<le> x" | "x < 10 ^ 21" "y < 10 ^ 21" | "x < 10 ^ 21" "10 ^ 21 \<le> y"
    by linarith
  then show ?thesis
  proof cases
    case 1
    then show ?thesis using assms by (simp add: round3_nonneg y0)
  next
    case 2
    have "\<lfloor>x * 1000 + 1 / 2\<rfloor> \<le> \<lfloor>y * 1000 + 1 / 2\<rfloor>"
      using assms by (intro floor_mono) simp
    then show ?thesis using 2 assms
      by (simp add: round3_nonneg y0 divide_right_mono)
  next
    case 3
    have "x * 1000 + 1 / 2 < of_int (10 ^ 24 + 1)" using 3 by simp
    then have "\<lfloor>x * 1000 + 1 / 2\<rfloor> < 10 ^ 24 + 1" by (simp only: floor_less_iff)
    then have "\<lfloor>x * 1000 + 1 / 2\<rfloor> \<le> 10 ^ 24" by simp
    then have "(of_int \<lfloor>x * 1000 + 1 / 2\<rfloor> :: real) \<le> of_int (10 ^ 24)"
      by (simp only: of_int_le_iff)
    then have a: "of_int \<lfloor>x * 1000 + 1 / 2\<rfloor> / 1000 \<le> (10 ^ 21 :: real)" by simp
    have rx: "round3 x = of_int \<lfloor>x * 1000 + 1 / 2\<rfloor> / 1000"
      using 3 assms by (simp add: round3_nonneg)
    have ry: "round3 y = y"
      using 3 y0 by (simp add: round3_nonneg)
    show ?thesis
      unfolding rx ry using a 3 by linarith
  qed
qed

lemma round3_strict:
  assumes "0 \<le> x" "x + 1 / 1000 \<le> y"
  shows "round3 x < round3 y"
proof -
  have y0: "0 \<le> y" using assms by simp
  have fl: "of_int \<lfloor>x * 1000 + 1 / 2\<rfloor> \<le> x * 1000 + 1 / 2" by (rule of_int_floor_le)
  consider "10 ^ 21 \<le> x" | "x < 10 ^ 21" "y < 10 ^ 21" | "x < 10 ^ 21" "10 ^ 21 \<le> y"
    by linarith
  then show ?thesis
  proof cases
    case 1
    then show ?thesis using assms by (simp add: round3_nonneg y0)
  next
    case 2
    have "\<lfloor>x * 1000 + 1 / 2\<rfloor> + 1 = \<lfloor>(x * 1000 + 1 / 2) + 1\<rfloor>"
      using floor_add_int [of "x * 1000 + 1 / 2" 1] by (simp only: of_int_1)
    also have "\<dots> \<le> \<lfloor>y * 1000 + 1 / 2\<rfloor>"
      using assms by (intro floor_mono) simp
    finally have "\<lfloor>x * 1000 + 1 / 2\<rfloor> < \<lfloor>y * 1000 + 1 / 2\<rfloor>" by simp
    then have "(of_int \<lfloor>x * 1000 + 1 / 2\<rfloor> :: real) < of_int \<lfloor>y * 1000 + 1 / 2\<rfloor>"
      by (simp only: of_int_less_iff)
    then show ?thesis using 2 assms
      by (simp add: round3_nonneg y0 divide_strict_right_mono)
  next
    case 3
    have a: "of_int \<lfloor>x * 1000 + 1 / 2\<rfloor> / 1000 < y" using fl assms by linarith
    have rx: "round3 x = of_int \<lfloor>x * 1000 + 1 / 2\<rfloor> / 1000"
      using 3 assms by (simp add: round3_nonneg)
    have ry: "round3 y = y"
      using 3 y0 by (simp add: round3_nonneg)
    show ?thesis
      unfolding rx ry using a by simp
  qed
qed

section \<open>Validation of a load\<close>

text \<open>
  C6, as stated: \<open>validateLoad\<close> returns valid exactly when the rules of the
  specification hold. It does not: on a beam of length 0, which the rules exclude, the
  point load at position 0 is accepted, because \<open>validateLoad\<close> never looks at the beam
  length on its own (that is \<open>validateBeamLength\<close>'s check); and on a beam of length 5
  a point load of infinite magnitude is accepted, because the checks are \<open>isNaN\<close>, which
  lets the infinities through.
\<close>

theorem validateLoad_rules_counterexample:
  "isValid (validateLoad pointAtZero (Fin 0)) \<and> \<not> validateLoad_spec pointAtZero (Fin 0)
   \<and> isValid (validateLoad infiniteMagnitude (Fin 5))
   \<and> \<not> validateLoad_spec infiniteMagnitude (Fin 5)"
  by (simp add: validateLoad_def validateLoad_spec_def pointAtZero_def infiniteMagnitude_def)

text \<open>
  C6, amended. \<open>validateLoad\<close> is total and returns valid exactly when: the position is
  a number at least 0 (not NaN) that does not exceed the beam length, where a NaN beam
  length is exceeded by nothing; the magnitude is not NaN; and, for a distributed load,
  the length is a number greater than 0 and \<open>position + length\<close> does not exceed the beam
  length. The beam length itself is not checked and infinities are not rejected. The
  result carries a message exactly when it is invalid.
\<close>

theorem validateLoad_valid_iff:
  "(isValid (validateLoad load bl) \<longleftrightarrow>
      Fin 0 \<le> u_position load \<and> (isNaN bl \<or> u_position load \<le> bl) \<and>
      \<not> isNaN (u_magnitude load) \<and>
      (u_type load = UDistributed \<longrightarrow>
         Fin 0 < u_length load \<and> (isNaN bl \<or> u_position load + u_length load \<le> bl)))
   \<and> (message (validateLoad load bl) = None \<longleftrightarrow> isValid (validateLoad load bl))"
proof -
  have m: "message (validateLoad load bl) = None \<longleftrightarrow> isValid (validateLoad load bl)"
    by (simp add: validateLoad_def)
  have v: "isValid (validateLoad load bl) \<longleftrightarrow>
      Fin 0 \<le> u_position load \<and> (isNaN bl \<or> u_position load \<le> bl) \<and>
      \<not> isNaN (u_magnitude load) \<and>
      (u_type load = UDistributed \<longrightarrow>
         Fin 0 < u_length load \<and> (isNaN bl \<or> u_position load + u_length load \<le> bl))"
    using not_greater_iff [of "u_position load" bl]
      not_greater_iff [of "u_position load + u_length load" bl]
      add_not_NaN [of "u_position load" "u_length load"]
    by (auto simp: validateLoad_def nonneg_iff pos_iff)
  show ?thesis using m v by blast
qed

theorem validateLoad_valid_iff_witness:
  "isValid (validateLoad distributedOneToThree (Fin 5))
   \<and> message (validateLoad distributedOneToThree (Fin 5)) = None"
  using validateLoad_valid_iff [of distributedOneToThree "Fin 5"]
  by (simp add: distributedOneToThree_def)

section \<open>Reactions on a span of no length\<close>

text \<open>
  C3. Whenever the span \<open>endSupportPosition - startSupportPosition\<close> is at most 0, which
  includes both supports at the same place, \<open>calculateReactions\<close> returns the record
  with \<open>reactionA\<close>, \<open>reactionB\<close>, \<open>momentA\<close> and \<open>momentB\<close> all 0, whatever the loads
  and the kinds of the supports are. The function is total: it has no path that throws.
\<close>

theorem calculateReactions_nonpositive_span:
  "endSupportPosition s - startSupportPosition s \<le> Fin 0 \<Longrightarrow>
   calculateReactions s = zeroReactions"
  by (simp add: calculateReactions_def zeroReactions_def)

theorem calculateReactions_nonpositive_span_witness:
  "endSupportPosition zeroSpan - startSupportPosition zeroSpan \<le> Fin 0
   \<and> calculateReactions zeroSpan = zeroReactions"
proof -
  have h: "endSupportPosition zeroSpan - startSupportPosition zeroSpan \<le> Fin 0"
    by (simp add: zeroSpan_def minus_number_def)
  show ?thesis
    using h calculateReactions_nonpositive_span [OF h] by simp
qed

section \<open>The scenario of the specification\<close>

lemma scenario_reactions:
  "calculateReactions scenario =
     \<lparr>reactionA = Fin 25, reactionB = Fin 25, momentA = Fin 0, momentB = Fin 0\<rparr>"
  by (simp add: scenario_def beam_defs reactions_defs)

text \<open>
  C4. On the beam of length 5 with one point load of magnitude 50 at 2.5, a pin at 0
  and a roller at 5, \<open>calculateReactions\<close> returns \<open>reactionA = 25\<close> and
  \<open>reactionB = 25\<close>, and with these reactions stored \<open>calculateMoment\<close> returns 62.5
  at 2.5 and 0 at both 0 and 5.
\<close>

theorem scenario_reactions_and_moments:
  "reactionA (calculateReactions scenario) = Fin 25
   \<and> reactionB (calculateReactions scenario) = Fin 25
   \<and> calculateMoment (updateReactions scenario) (Fin 2.5) = Fin 62.5
   \<and> calculateMoment (updateReactions scenario) (Fin 0) = Fin 0
   \<and> calculateMoment (updateReactions scenario) (Fin 5) = Fin 0"
proof -
  have m: "calculateMoment (updateReactions scenario) (Fin 2.5) = Fin 62.5"
    by (simp add: updateReactions_def scenario_reactions)
       (simp add: scenario_def beam_defs moment_defs)
  have m0: "calculateMoment (updateReactions scenario) (Fin 0) = Fin 0"
    by (simp add: updateReactions_def scenario_reactions)
       (simp add: scenario_def beam_defs moment_defs)
  have m5: "calculateMoment (updateReactions scenario) (Fin 5) = Fin 0"
    by (simp add: updateReactions_def scenario_reactions)
       (simp add: scenario_def beam_defs moment_defs)
  show ?thesis
    using m m0 m5 by (simp add: scenario_reactions)
qed

section \<open>Equilibrium\<close>

text \<open>
  C1. The claim is that the reactions balance the applied loads for every load set. On
  two point loads of 10, at 1 and at 2, between a pin at 0 and a roller at 4, the
  reactions \<open>calculateReactions\<close> returns add up to 10 while the loads apply 20: the
  second loop assigns the reactions at every load instead of adding to them, so only
  the last load is balanced.
\<close>

theorem twoPointLoads_unbalanced:
  "reactionA (calculateReactions twoPointLoads) + reactionB (calculateReactions twoPointLoads)
     = Fin 10
   \<and> appliedForce_spec twoPointLoads = Fin 20"
  by (simp add: twoPointLoads_def beam_defs reactions_defs appliedForce_spec_def
      appliedForce_spec_step_def)

section \<open>The last load wins\<close>

lemma reaction_step_loads [simp]: "reaction_step (s\<lparr>loads := ls\<rparr>) = reaction_step s"
  by (rule ext)+ (simp add: reaction_step_def Let_def split: LoadType.splits option.splits)

lemma fixedEndMoment_step_loads [simp]:
  "fixedEndMoment_step (s\<lparr>loads := ls\<rparr>) = fixedEndMoment_step s"
  by (rule ext)+ (simp add: fixedEndMoment_step_def Let_def)

lemma adjustReactions_loads [simp]: "adjustReactions (s\<lparr>loads := ls\<rparr>) = adjustReactions s"
  by (rule ext)+ (simp add: adjustReactions_def Let_def)

text \<open>
  C2, as stated: with at least two loads between the supports, the primary reactions
  are those of the last such load alone. They are not when that load is a torsion
  load: after a point load of 10 at 2 and a torsion load at 1, both between the
  supports, the reactions are still the point load's 5 and 5, while the torsion load
  alone gives 0 and 0.
\<close>

theorem last_load_wins_counterexample:
  "length (filter (inSpan pointThenTorsion) (loads pointThenTorsion)) = 2
   \<and> primaryReactions pointThenTorsion = (Fin 5, Fin 5)
   \<and> primaryReactions
        (pointThenTorsion
           \<lparr>loads := [last (filter (inSpan pointThenTorsion) (loads pointThenTorsion))]\<rparr>)
       = (Fin 0, Fin 0)"
  by (simp add: pointThenTorsion_def torsionLoad_def beam_defs inSpan_def
      primaryReactions_def reaction_step_def minus_number_def Let_def)

lemma reaction_step_assigns:
  "assigns s l \<Longrightarrow> reaction_step s l r = reaction_step s l r'"
  by (cases "load_type l"; cases "load_length l")
     (auto simp: assigns_def inSpan_def reaction_step_def Let_def)

lemma reaction_step_not_assigns:
  "\<not> assigns s l \<Longrightarrow> reaction_step s l r = r"
  by (cases "load_type l"; cases "load_length l")
     (auto simp: assigns_def inSpan_def reaction_step_def Let_def)

lemma fold_reaction_step_last:
  "filter (assigns s) ls \<noteq> [] \<Longrightarrow>
   fold (reaction_step s) ls r = reaction_step s (last (filter (assigns s) ls)) r'"
proof (induction ls rule: rev_induct)
  case Nil
  then show ?case by simp
next
  case (snoc x xs)
  show ?case
  proof (cases "assigns s x")
    case True
    then show ?thesis
      using reaction_step_assigns [OF True, of "fold (reaction_step s) xs r" r'] by simp
  next
    case False
    with snoc show ?thesis
      by (simp add: reaction_step_not_assigns)
  qed
qed

text \<open>
  C2, amended. The primary reactions are recomputed per load and not summed: whenever
  some load between the supports is a point load, a moment load or a distributed load
  with a nonzero length, the primary reactions of the whole load list are those
  computed from the last such load alone, and every earlier load is discarded. Torsion
  loads and distributed loads without a length leave the reactions as they are.
\<close>

theorem primaryReactions_last_wins:
  "filter (assigns s) (loads s) \<noteq> [] \<Longrightarrow>
   primaryReactions s = primaryReactions (s\<lparr>loads := [last (filter (assigns s) (loads s))]\<rparr>)"
  using fold_reaction_step_last [of s "loads s" "(Fin 0, Fin 0)" "(Fin 0, Fin 0)"]
  by (simp add: primaryReactions_def)

theorem primaryReactions_last_wins_witness:
  "length (filter (assigns twoPointLoads) (loads twoPointLoads)) = 2
   \<and> primaryReactions twoPointLoads
       = primaryReactions (twoPointLoads\<lparr>loads := [pointLoad 2 2 10]\<rparr>)"
proof -
  have f: "filter (assigns twoPointLoads) (loads twoPointLoads)
             = [pointLoad 1 1 10, pointLoad 2 2 10]"
    by (simp add: twoPointLoads_def beam_defs assigns_def inSpan_def)
  have h: "filter (assigns twoPointLoads) (loads twoPointLoads) \<noteq> []"
    by (simp add: f)
  show ?thesis
    using primaryReactions_last_wins [OF h] by (simp add: f)
qed

section \<open>Fixed-end moments\<close>

text \<open>
  C5, as stated: \<open>momentA\<close> is 0 unless the start support is fixed. It is not: with a
  pin at the start, a fixed support at the end and a point load of 10 at 1 on a span of
  4, \<open>momentA\<close> is 5.625. The first loop runs when either support is fixed and fills
  both moments.
\<close>

theorem momentA_pin_counterexample:
  "startSupport pinFixed = Pin \<and> momentA (calculateReactions pinFixed) = Fin 5.625"
  by (simp add: pinFixed_def beam_defs reactions_defs)

text \<open>
  C5, amended. \<open>momentA\<close> and \<open>momentB\<close> are nonzero only if at least one of the two
  supports is fixed: for every load set, if both supports are pin or roller then
  \<open>momentA\<close> and \<open>momentB\<close> are both 0.
\<close>

theorem moments_zero_without_fixed_support:
  "startSupport s \<noteq> Fixed \<Longrightarrow> endSupport s \<noteq> Fixed \<Longrightarrow>
   momentA (calculateReactions s) = Fin 0 \<and> momentB (calculateReactions s) = Fin 0"
  by (simp add: calculateReactions_def fixedEndMoments_def Let_def round3_def)

theorem moments_zero_without_fixed_support_witness:
  "startSupport initialBeam = Pin \<and> endSupport initialBeam = Roller
   \<and> momentA (calculateReactions initialBeam) = Fin 0
   \<and> momentB (calculateReactions initialBeam) = Fin 0"
proof -
  have a: "startSupport initialBeam \<noteq> Fixed" by (simp add: initialBeam_def)
  have b: "endSupport initialBeam \<noteq> Fixed" by (simp add: initialBeam_def)
  show ?thesis
    using moments_zero_without_fixed_support [OF a b] by (simp add: initialBeam_def)
qed

section \<open>Section properties\<close>

text \<open>
  C7. For a cross-section of finite width \<open>w\<close> and height \<open>h\<close>,
  \<open>calculateSectionProperties\<close> returns the area \<open>max 0.001 (w h)\<close>, the moment of
  inertia \<open>w h\<^sup>3 / 12\<close>, the polar moment \<open>(w h\<^sup>3 + h w\<^sup>3) / 12\<close>, and, where the
  quotients are defined (\<open>h\<close> not 0, respectively \<open>max w h\<close> not 0), the section
  modulus \<open>2 I / h\<close> and the torsional constant
  \<open>a b\<^sup>3 (1/3 - 0.21 (b/a) (1 - (b/a)\<^sup>4 / 12))\<close> with \<open>a = max w h\<close>, \<open>b = min w h\<close>.
\<close>

theorem calculateSectionProperties_formulas:
  assumes "beamWidth s = Fin w" "beamHeight s = Fin h"
  shows "area (calculateSectionProperties s) = Fin (max 0.001 (w * h))
   \<and> momentOfInertia (calculateSectionProperties s) = Fin (w * h ^ 3 / 12)
   \<and> (h \<noteq> 0 \<longrightarrow>
        sectionModulus (calculateSectionProperties s) = Fin (2 * (w * h ^ 3 / 12) / h))
   \<and> polarMomentOfInertia (calculateSectionProperties s) = Fin ((w * h ^ 3 + h * w ^ 3) / 12)
   \<and> (max w h \<noteq> 0 \<longrightarrow>
        torsionalConstant (calculateSectionProperties s) =
          Fin (max w h * min w h ^ 3
               * (1 / 3 - 0.21 * (min w h / max w h) * (1 - (min w h / max w h) ^ 4 / 12))))"
  using assms
  by (auto simp: calculateSectionProperties_def Let_def minus_number_def max_def min_def
      mult.commute)

theorem calculateSectionProperties_formulas_witness:
  "beamWidth initialBeam = Fin 0.1 \<and> beamHeight initialBeam = Fin 0.2
   \<and> area (calculateSectionProperties initialBeam) = Fin 0.02
   \<and> momentOfInertia (calculateSectionProperties initialBeam) = Fin (1 / 15000)
   \<and> sectionModulus (calculateSectionProperties initialBeam) = Fin (1 / 1500)
   \<and> polarMomentOfInertia (calculateSectionProperties initialBeam) = Fin (1 / 12000)
   \<and> torsionalConstant (calculateSectionProperties initialBeam) = Fin (8789 / 192000000)"
proof -
  have w: "beamWidth initialBeam = Fin 0.1" by (simp add: initialBeam_def)
  have h: "beamHeight initialBeam = Fin 0.2" by (simp add: initialBeam_def)
  show ?thesis
    using calculateSectionProperties_formulas [OF w h] w h by (simp add: power_divide)
qed

section \<open>Stresses on a cross-section of height zero\<close>

text \<open>
  C8. The claim is that a degenerate cross-section is clamped to an epsilon so that
  every stress is a finite number. Only the area is clamped, and no stress reads the
  area: on the scenario with height 0 the moment of inertia is 0, the section modulus
  is \<open>0 / 0\<close>, and all four stresses at 2.5 are NaN.
\<close>

theorem zeroHeight_stresses_NaN:
  "calculateStresses zeroHeight (Fin 2.5) =
     \<lparr>normalStress = NaN, shearStress = NaN, torsionalStress = NaN, vonMisesStress = NaN\<rparr>"
proof -
  have p: "calculateSectionProperties zeroHeight =
             \<lparr>area = Fin 0.001, momentOfInertia = Fin 0, sectionModulus = NaN,
              polarMomentOfInertia = Fin 0, torsionalConstant = Fin 0\<rparr>"
    by (simp add: zeroHeight_def updateReactions_def scenario_def initialBeam_def
        calculateSectionProperties_def minus_number_def Let_def)
  have r: "reactions zeroHeight =
             \<lparr>reactionA = Fin 25, reactionB = Fin 25, momentA = Fin 0, momentB = Fin 0\<rparr>"
    by (simp add: zeroHeight_def updateReactions_def scenario_def beam_defs reactions_defs)
  have m: "calculateMoment zeroHeight (Fin 2.5) = Fin 62.5"
    by (simp add: calculateMoment_def r)
       (simp add: zeroHeight_def updateReactions_def scenario_def beam_defs moment_step_def
          minus_number_def round3_def)
  have s: "calculateShear zeroHeight (Fin 2.5) = Fin (- 25)"
    by (simp add: calculateShear_def r)
       (simp add: zeroHeight_def updateReactions_def scenario_def beam_defs shear_step_def
          minus_number_def round3_def)
  have t: "calculateTorsion zeroHeight (Fin 2.5) = Fin 0"
    by (simp add: calculateTorsion_def zeroHeight_def updateReactions_def scenario_def
        beam_defs torsion_step_def round3_def)
  have hw: "beamHeight zeroHeight = Fin 0" "beamWidth zeroHeight = Fin 0.1"
    by (simp_all add: zeroHeight_def updateReactions_def scenario_def initialBeam_def)
  show ?thesis
    using m s t by (simp add: calculateStresses_def p hw Let_def)
qed

section \<open>Rounding to binary64\<close>

lemma round_half_even_of_int [simp]: "round_half_even (of_int n) = n"
  by (simp add: round_half_even_def)

lemma round_half_even_bounds:
  "\<lfloor>y\<rfloor> \<le> round_half_even y" "round_half_even y \<le> \<lfloor>y\<rfloor> + 1"
  by (simp_all add: round_half_even_def Let_def)

lemma round_half_even_mono:
  assumes "a \<le> b"
  shows "round_half_even a \<le> round_half_even b"
proof (cases "\<lfloor>a\<rfloor> = \<lfloor>b\<rfloor>")
  case True
  then show ?thesis
    using assms by (auto simp: round_half_even_def Let_def)
next
  case False
  then have "\<lfloor>a\<rfloor> < \<lfloor>b\<rfloor>"
    using floor_mono [OF assms] by simp
  then show ?thesis
    using round_half_even_bounds(2) [of a] round_half_even_bounds(1) [of b] by linarith
qed

lemma round_half_even_le: "a \<le> of_int n \<Longrightarrow> round_half_even a \<le> n"
  using round_half_even_mono [of a "of_int n"] by simp

lemma round_half_even_ge: "of_int n \<le> a \<Longrightarrow> n \<le> round_half_even a"
  using round_half_even_mono [of "of_int n" a] by simp

lemma round_half_even_error: "\<bar>of_int (round_half_even a) - a\<bar> \<le> 1 / 2"
proof -
  have "of_int \<lfloor>a\<rfloor> \<le> a" "a < of_int \<lfloor>a\<rfloor> + 1" by linarith+
  then show ?thesis
    by (auto simp: round_half_even_def Let_def)
qed


lemma exponent_from_range:
  "- 1022 \<le> exponent_from n a" "exponent_from n a \<le> int n - 1022"
  by (induction n) auto

lemma exponent_from_le:
  "- 1022 < exponent_from n a \<Longrightarrow> 2 powi (exponent_from n a) \<le> a"
  by (induction n) (auto split: if_splits)

lemma exponent_from_less:
  "exponent_from n a < e \<Longrightarrow> e \<le> int n - 1022 \<Longrightarrow> a < 2 powi e"
proof (induction n)
  case 0
  then show ?case by simp
next
  case (Suc n)
  show ?case
  proof (cases "e = int (Suc n) - 1022")
    case True
    with Suc.prems show ?thesis by (auto split: if_splits)
  next
    case False
    with Suc.prems have "e \<le> int n - 1022" by simp
    moreover have "exponent_from n a < e"
      using Suc.prems by (auto split: if_splits)
    ultimately show ?thesis by (rule Suc.IH [rotated])
  qed
qed

lemma exponent_from_mono:
  "a \<le> b \<Longrightarrow> exponent_from n a \<le> exponent_from n b"
proof (induction n)
  case 0
  then show ?case by simp
next
  case (Suc n)
  then show ?case
    using exponent_from_range(2) [of n a] by auto
qed

lemma exponent_range: "- 1022 \<le> exponent x" "exponent x \<le> 1023"
  using exponent_from_range [of 2045 "\<bar>x\<bar>"] by (simp_all add: exponent_def)

lemma exponent_le: "- 1022 < exponent x \<Longrightarrow> 2 powi (exponent x) \<le> \<bar>x\<bar>"
  unfolding exponent_def by (rule exponent_from_le)

lemma exponent_less_general:
  assumes "exponent x < e" "e \<le> 1023"
  shows "\<bar>x\<bar> < 2 powi e"
proof -
  have "e \<le> int 2045 - 1022" using assms(2) by simp
  with assms(1) show ?thesis
    unfolding exponent_def by (rule exponent_from_less)
qed

lemma exponent_less: "exponent x < 1023 \<Longrightarrow> \<bar>x\<bar> < 2 powi (exponent x + 1)"
  by (rule exponent_less_general) simp_all

lemma exponent_mono: "\<bar>x\<bar> \<le> \<bar>y\<bar> \<Longrightarrow> exponent x \<le> exponent y"
  unfolding exponent_def by (rule exponent_from_mono)

lemma exponent_eqI:
  assumes "- 1022 \<le> e" "e \<le> 1023"
    and lo: "e = - 1022 \<or> 2 powi e \<le> \<bar>x\<bar>"
    and hi: "e = 1023 \<or> \<bar>x\<bar> < 2 powi (e + 1)"
  shows "exponent x = e"
proof (rule ccontr)
  assume ne: "exponent x \<noteq> e"
  show False
  proof (cases "exponent x < e")
    case True
    then have "\<bar>x\<bar> < 2 powi e"
      using assms(2) by (rule exponent_less_general)
    moreover have "e \<noteq> - 1022" using True exponent_range(1) [of x] by simp
    ultimately show False using lo by simp
  next
    case False
    with ne have gt: "e < exponent x" by simp
    then have "2 powi (exponent x) \<le> \<bar>x\<bar>"
      using assms(1) by (intro exponent_le) simp
    moreover have "e \<noteq> 1023" using gt exponent_range(2) [of x] by simp
    moreover have "(2::real) powi (e + 1) \<le> 2 powi (exponent x)"
      using gt by (intro power_int_increasing) simp_all
    ultimately show False using hi by linarith
  qed
qed

lemma exponent_normal:
  assumes "2 powi (- 1022) \<le> \<bar>x\<bar>"
  shows "2 powi (exponent x) \<le> \<bar>x\<bar>"
proof (cases "- 1022 < exponent x")
  case True
  then show ?thesis by (rule exponent_le)
next
  case False
  then have "exponent x = - 1022" using exponent_range(1) [of x] by simp
  then show ?thesis using assms by simp
qed


lemma nearest_0 [simp]: "nearest 0 = 0"
  using round_half_even_of_int [of 0] by (simp add: nearest_def)

lemma quantum_pos: "0 < (2::real) powi e"
  by (rule zero_less_power_int) simp

lemma nearest_le_boundary:
  assumes "x \<le> 2 powi b" "exponent x - 52 \<le> b"
  shows "nearest x \<le> 2 powi b"
proof -
  let ?q = "(2::real) powi (exponent x - 52)"
  let ?n = "(2::int) ^ nat (b - (exponent x - 52))"
  have q: "0 < ?q" by (rule quantum_pos)
  have "(2::real) powi b / ?q = 2 powi (b - (exponent x - 52))"
    by (simp add: power_int_diff)
  also have "\<dots> = of_int ?n"
    using assms(2) by (simp add: power_int_nonneg_exp)
  finally have bq: "(2::real) powi b / ?q = of_int ?n" .
  have "x / ?q \<le> 2 powi b / ?q"
    using assms(1) q by (simp add: divide_right_mono)
  then have "round_half_even (x / ?q) \<le> ?n"
    unfolding bq by (rule round_half_even_le)
  then have "(of_int (round_half_even (x / ?q)) :: real) \<le> of_int ?n"
    by (simp only: of_int_le_iff)
  then have "?q * of_int (round_half_even (x / ?q)) \<le> ?q * of_int ?n"
    using q by (simp only: mult_le_cancel_left_pos)
  also have "?q * of_int ?n = 2 powi b"
    using bq q by (simp add: field_simps)
  finally show ?thesis by (simp add: nearest_def Let_def)
qed

lemma nearest_ge_boundary:
  assumes "2 powi b \<le> x" "exponent x - 52 \<le> b"
  shows "2 powi b \<le> nearest x"
proof -
  let ?q = "(2::real) powi (exponent x - 52)"
  let ?n = "(2::int) ^ nat (b - (exponent x - 52))"
  have q: "0 < ?q" by (rule quantum_pos)
  have "(2::real) powi b / ?q = 2 powi (b - (exponent x - 52))"
    by (simp add: power_int_diff)
  also have "\<dots> = of_int ?n"
    using assms(2) by (simp add: power_int_nonneg_exp)
  finally have bq: "(2::real) powi b / ?q = of_int ?n" .
  have "2 powi b / ?q \<le> x / ?q"
    using assms(1) q by (simp add: divide_right_mono)
  then have "?n \<le> round_half_even (x / ?q)"
    unfolding bq by (rule round_half_even_ge)
  then have "(of_int ?n :: real) \<le> of_int (round_half_even (x / ?q))"
    by (simp only: of_int_le_iff)
  then have le: "?q * of_int ?n \<le> ?q * of_int (round_half_even (x / ?q))"
    using q by (simp only: mult_le_cancel_left_pos)
  have "2 powi b = ?q * of_int ?n"
    using bq q by (simp add: field_simps)
  also note le
  finally show ?thesis by (simp add: nearest_def Let_def)
qed

lemma nearest_mono:
  assumes "0 \<le> x" "x \<le> y"
  shows "nearest x \<le> nearest y"
proof -
  have e: "exponent x \<le> exponent y"
    using assms by (intro exponent_mono) simp
  show ?thesis
  proof (cases "exponent x = exponent y")
    case True
    let ?q = "(2::real) powi (exponent y - 52)"
    have q: "0 < ?q" by (rule quantum_pos)
    have "x / ?q \<le> y / ?q"
      using assms(2) q by (simp add: divide_right_mono)
    then have "round_half_even (x / ?q) \<le> round_half_even (y / ?q)"
      by (rule round_half_even_mono)
    then have "(of_int (round_half_even (x / ?q)) :: real) \<le> of_int (round_half_even (y / ?q))"
      by (simp only: of_int_le_iff)
    then have "?q * of_int (round_half_even (x / ?q)) \<le> ?q * of_int (round_half_even (y / ?q))"
      using q by (simp only: mult_le_cancel_left_pos)
    then show ?thesis
      by (simp add: nearest_def Let_def True)
  next
    case False
    with e have lt: "exponent x < exponent y" by simp
    have "\<bar>x\<bar> < 2 powi (exponent y)"
      using lt exponent_range(2) [of y] by (rule exponent_less_general)
    then have x: "x \<le> 2 powi (exponent y)" by simp
    have "- 1022 < exponent y"
      using lt exponent_range(1) [of x] by simp
    then have "2 powi (exponent y) \<le> \<bar>y\<bar>" by (rule exponent_le)
    then have y: "2 powi (exponent y) \<le> y" using assms by simp
    have "nearest x \<le> 2 powi (exponent y)"
      using x lt by (intro nearest_le_boundary) simp_all
    moreover have "2 powi (exponent y) \<le> nearest y"
      using y by (intro nearest_ge_boundary) simp_all
    ultimately show ?thesis by simp
  qed
qed

lemma nearest_nonneg: "0 \<le> x \<Longrightarrow> 0 \<le> nearest x"
  using nearest_mono [of 0 x] by simp

lemma nearest_error:
  assumes "2 powi (- 1022) \<le> x"
  shows "\<bar>nearest x - x\<bar> \<le> x / 2 ^ 53"
proof -
  let ?q = "(2::real) powi (exponent x - 52)"
  have q: "0 < ?q" by (rule quantum_pos)
  have x0: "0 < x" using assms quantum_pos [of "- 1022"] by linarith
  have "2 powi (exponent x) \<le> \<bar>x\<bar>"
    using assms x0 by (intro exponent_normal) simp
  then have ex: "2 powi (exponent x) \<le> x" using x0 by simp
  have qe: "?q = 2 powi (exponent x) / 2 ^ 52"
    by (simp add: power_int_diff)
  have "\<bar>of_int (round_half_even (x / ?q)) - x / ?q\<bar> \<le> 1 / 2"
    by (rule round_half_even_error)
  then have "?q * \<bar>of_int (round_half_even (x / ?q)) - x / ?q\<bar> \<le> ?q * (1 / 2)"
    using q by (simp only: mult_le_cancel_left_pos)
  moreover have "?q * \<bar>of_int (round_half_even (x / ?q)) - x / ?q\<bar>
      = \<bar>?q * of_int (round_half_even (x / ?q)) - x\<bar>"
  proof -
    have "?q * \<bar>of_int (round_half_even (x / ?q)) - x / ?q\<bar>
      = \<bar>?q * (of_int (round_half_even (x / ?q)) - x / ?q)\<bar>"
      using q by (simp add: abs_mult)
    also have "?q * (of_int (round_half_even (x / ?q)) - x / ?q)
      = ?q * of_int (round_half_even (x / ?q)) - x"
      using q by (simp add: right_diff_distrib)
    finally show ?thesis .
  qed
  ultimately have "\<bar>nearest x - x\<bar> \<le> ?q * (1 / 2)"
    by (simp add: nearest_def Let_def)
  also have "?q * (1 / 2) = 2 powi (exponent x) / 2 ^ 53"
    by (simp add: qe)
  also have "\<dots> \<le> x / 2 ^ 53"
    using ex by (simp add: divide_right_mono)
  finally show ?thesis .
qed

lemma binary64_0 [simp]: "binary64 0 = Fin 0"
  by (simp add: binary64_def)

lemma binary64_mono:
  assumes "0 \<le> x" "x \<le> y"
  shows "binary64 x \<le> binary64 y"
proof -
  have m: "nearest x \<le> nearest y" using assms by (rule nearest_mono)
  have nx: "0 \<le> nearest x" using assms(1) by (rule nearest_nonneg)
  have ny: "0 \<le> nearest y" using assms by (intro nearest_nonneg) simp
  show ?thesis
  proof (cases "2 ^ 1024 \<le> nearest y")
    case True
    then have "0 < y" using nearest_0 by (cases "y = 0") (use assms in auto)
    then show ?thesis using True ny nx by (auto simp: binary64_def)
  next
    case False
    then show ?thesis using m nx ny by (auto simp: binary64_def)
  qed
qed

lemma binary64_finite:
  assumes "0 \<le> x" "nearest x < 2 ^ 1024"
  shows "binary64 x = Fin (nearest x)"
  using assms nearest_nonneg [of x] by (simp add: binary64_def)

section \<open>The stations of the diagram\<close>

lemma binary64_nonneg: "0 \<le> x \<Longrightarrow> Fin 0 \<le> binary64 x"
  using binary64_mono [of 0 x] by simp

lemma toFixed3_mono:
  assumes "Fin 0 \<le> a" "a \<le> b"
  shows "toFixed3 a \<le> toFixed3 b"
  using assms by (cases a; cases b) (simp_all add: round3_mono)

lemma generateDiagramData_length: "length (generateDiagramData s) = 101"
  by (simp add: generateDiagramData_def Let_def del: upt_Suc)

lemma generateDiagramData_nth:
  "i \<le> 100 \<Longrightarrow>
   generateDiagramData s ! i = diagramPoint s (rounded (beamLength s / Fin 100)) i"
  by (simp add: generateDiagramData_def Let_def del: upt_Suc)

lemma generateDiagramData_util_positions:
  "map ud_position (generateDiagramData_util (beamLength s) ls)
   = map dp_position (generateDiagramData s)"
  by (simp add: generateDiagramData_util_def generateDiagramData_def diagramPoint_def Let_def
      del: upt_Suc)

text \<open>The step between stations is finite for every beam length below \<open>2 ^ 1024\<close>.\<close>

lemma step_finite:
  assumes "0 < l" "l < 2 ^ 1024"
  shows "binary64 (l / 100) = Fin (nearest (l / 100))"
proof -
  have "l / 100 \<le> 2 ^ 1018" using assms by simp
  then have "l / 100 \<le> 2 powi 1018" by simp
  moreover have "exponent (l / 100) - 52 \<le> 1018"
    using exponent_range(2) [of "l / 100"] by simp
  ultimately have "nearest (l / 100) \<le> 2 powi 1018" by (rule nearest_le_boundary)
  then have "nearest (l / 100) < 2 ^ 1024" by simp
  then show ?thesis
    using assms by (intro binary64_finite) simp_all
qed

lemma position_nth:
  assumes "beamLength s = Fin l" "0 < l" "l < 2 ^ 1024" "i \<le> 100"
  shows "dp_position (generateDiagramData s ! i)
         = toFixed3 (binary64 (real i * nearest (l / 100)))"
  using assms
  by (simp add: generateDiagramData_nth diagramPoint_def Let_def step_finite)

text \<open>Evaluating \<open>nearest\<close> and \<open>binary64\<close> once the exponent is known.\<close>

lemma nearest_at:
  assumes "exponent x = e"
    and "2 powi (e - 52) * of_int (round_half_even (x / 2 powi (e - 52))) = r"
  shows "nearest x = r"
  using assms by (simp add: nearest_def Let_def)

lemma binary64_at:
  assumes "nearest x = r" "\<bar>r\<bar> < 2 ^ 1024"
  shows "binary64 x = Fin r"
  using assms by (simp add: binary64_def)

lemma tinyBeam_step:
  "nearest (0.0078125 / 100) = 5764607523034235 / 73786976294838206464"
proof (rule nearest_at)
  show "exponent (0.0078125 / 100) = - 14"
    by (rule exponent_eqI) simp_all
  show "2 powi (- 14 - 52) * of_int (round_half_even (0.0078125 / 100 / 2 powi (- 14 - 52)))
        = (5764607523034235 / 73786976294838206464 :: real)"
    by (simp add: round_half_even_def Let_def)
qed

lemma tinyBeam_station_1:
  "binary64 (real (1::nat) * (5764607523034235 / 73786976294838206464))
   = Fin (5764607523034235 / 73786976294838206464)"
proof (rule binary64_at)
  show "nearest (real (1::nat) * (5764607523034235 / 73786976294838206464))
        = 5764607523034235 / 73786976294838206464"
  proof (rule nearest_at)
    show "exponent (real (1::nat) * (5764607523034235 / 73786976294838206464)) = - 14"
      by (rule exponent_eqI) simp_all
    show "2 powi (- 14 - 52)
            * of_int (round_half_even
                (real (1::nat) * (5764607523034235 / 73786976294838206464)
                   / 2 powi (- 14 - 52)))
          = (5764607523034235 / 73786976294838206464 :: real)"
      by (simp add: round_half_even_def Let_def)
  qed
  show "\<bar>5764607523034235 / 73786976294838206464 :: real\<bar> < 2 ^ 1024"
    by simp
qed

lemma tinyBeam_station_100:
  "binary64 (real (100::nat) * (5764607523034235 / 73786976294838206464))
   = Fin (1 / 128)"
proof (rule binary64_at)
  show "nearest (real (100::nat) * (5764607523034235 / 73786976294838206464))
        = 1 / 128"
  proof (rule nearest_at)
    show "exponent (real (100::nat) * (5764607523034235 / 73786976294838206464)) = - 7"
      by (rule exponent_eqI) simp_all
    show "2 powi (- 7 - 52)
            * of_int (round_half_even
                (real (100::nat) * (5764607523034235 / 73786976294838206464)
                   / 2 powi (- 7 - 52)))
          = (1 / 128 :: real)"
      by (simp add: round_half_even_def Let_def)
  qed
  show "\<bar>1 / 128 :: real\<bar> < 2 ^ 1024"
    by simp
qed

lemma roundingBeam_step:
  "nearest (1.8125 / 100) = 5224175567749775 / 288230376151711744"
proof (rule nearest_at)
  show "exponent (1.8125 / 100) = - 6"
    by (rule exponent_eqI) simp_all
  show "2 powi (- 6 - 52) * of_int (round_half_even (1.8125 / 100 / 2 powi (- 6 - 52)))
        = (5224175567749775 / 288230376151711744 :: real)"
    by (simp add: round_half_even_def Let_def)
qed

lemma roundingBeam_station_100:
  "binary64 (real (100::nat) * (5224175567749775 / 288230376151711744))
   = Fin (8162774324609023 / 4503599627370496)"
proof (rule binary64_at)
  show "nearest (real (100::nat) * (5224175567749775 / 288230376151711744))
        = 8162774324609023 / 4503599627370496"
  proof (rule nearest_at)
    show "exponent (real (100::nat) * (5224175567749775 / 288230376151711744)) = 0"
      by (rule exponent_eqI) simp_all
    show "2 powi (0 - 52)
            * of_int (round_half_even
                (real (100::nat) * (5224175567749775 / 288230376151711744)
                   / 2 powi (0 - 52)))
          = (8162774324609023 / 4503599627370496 :: real)"
      by (simp add: round_half_even_def Let_def)
  qed
  show "\<bar>8162774324609023 / 4503599627370496 :: real\<bar> < 2 ^ 1024"
    by simp
qed


text \<open>
  Between a station and its exact value lies at most one part in \<open>2 ^ 53\<close>; a part in
  \<open>10 ^ 9\<close> is all the proofs below need.
\<close>

lemma nearest_within:
  assumes "2 powi (- 1022) \<le> x"
  shows "x - x / 10 ^ 9 \<le> nearest x" "nearest x \<le> x + x / 10 ^ 9"
proof -
  have x0: "0 < x" using assms quantum_pos [of "- 1022"] by linarith
  have "x / 2 ^ 53 \<le> x / 10 ^ 9"
    using x0 by (intro divide_left_mono) simp_all
  with nearest_error [OF assms] show "x - x / 10 ^ 9 \<le> nearest x" "nearest x \<le> x + x / 10 ^ 9"
    by linarith+
qed

lemma station_within:
  assumes "1 / 1000 \<le> c"
  shows "real i * nearest c - real i * nearest c / 10 ^ 9 \<le> nearest (real i * nearest c)
       \<and> nearest (real i * nearest c) \<le> real i * nearest c + real i * nearest c / 10 ^ 9"
proof (cases "i = 0")
  case True
  then show ?thesis by simp
next
  case False
  have n: "(2::real) powi (- 1022) \<le> 1 / 2000" by simp
  have c: "2 powi (- 1022) \<le> c" using assms n by linarith
  have d: "1 / 2000 \<le> nearest c"
    using nearest_within(1) [OF c] assms by simp
  from False have "1 \<le> real i" by simp
  then have "1 * nearest c \<le> real i * nearest c"
    using d by (intro mult_right_mono) simp_all
  then have "2 powi (- 1022) \<le> real i * nearest c"
    using d n by linarith
  then show ?thesis
    using nearest_within [of "real i * nearest c"] by blast
qed

text \<open>Rounded stations of a beam at least 0.1 long keep their order after the rounding
  to three decimals: from 0.1004 on they are a thousandth apart, and below that station
  \<open>i\<close> is rounded to exactly \<open>i / 1000\<close>.\<close>

lemma stations_strict:
  assumes "1 / 10 \<le> l" "i < j" "j \<le> 100"
  shows "round3 (nearest (real i * nearest (l / 100)))
         < round3 (nearest (real j * nearest (l / 100)))"
proof -
  define c where "c = l / 100"
  define d where "d = nearest c"
  define a where "a = real i * d"
  define b where "b = real j * d"
  define ri where "ri = nearest a"
  define rj where "rj = nearest b"
  have c: "1 / 1000 \<le> c" using assms(1) by (simp add: c_def)
  have n: "(2::real) powi (- 1022) \<le> 1 / 2000" by simp
  have cn: "2 powi (- 1022) \<le> c" using c n by linarith
  have d_lo: "c - c / 10 ^ 9 \<le> d" and d_hi: "d \<le> c + c / 10 ^ 9"
    using nearest_within [OF cn] by (simp_all add: d_def)
  have d0: "0 \<le> d" using d_lo c by simp
  have ri_hi: "ri \<le> a + a / 10 ^ 9" and ri_lo: "a - a / 10 ^ 9 \<le> ri"
    using station_within [OF c, of i] by (simp_all add: ri_def a_def d_def)
  have rj_hi: "rj \<le> b + b / 10 ^ 9" and rj_lo: "b - b / 10 ^ 9 \<le> rj"
    using station_within [OF c, of j] by (simp_all add: rj_def b_def d_def)
  have a0: "0 \<le> a" using d0 by (simp add: a_def)
  have ri0: "0 \<le> ri" using a0 by (simp add: ri_def nearest_nonneg)
  have "real i + 1 \<le> real j" using assms(2) by simp
  then have "(real i + 1) * d \<le> real j * d"
    using d0 by (rule mult_right_mono)
  then have ab: "a + d \<le> b" by (simp add: a_def b_def algebra_simps)
  have "real j * d \<le> 100 * d"
    using d0 assms(3) by (intro mult_right_mono) simp_all
  then have b100: "b \<le> 100 * d" by (simp add: b_def)
  have a100: "a \<le> 100 * d" using ab b100 d0 by linarith
  have "round3 ri < round3 rj"
  proof (cases "1004 / 10000 \<le> l")
    case True
    then have "1004 / 10 ^ 6 \<le> c" by (simp add: c_def)
    then have "ri + 1 / 1000 \<le> rj"
      using ri_hi rj_lo ab a100 b100 d_lo by simp
    with ri0 show ?thesis by (rule round3_strict)
  next
    case False
    then have c_hi: "c < 1004 / 10 ^ 6" by (simp add: c_def)
    have i99: "real i \<le> 99" using assms(2,3) by simp
    have j100: "real j \<le> 100" using assms(3) by simp
    have "d \<le> 1004001 / 10 ^ 9" using d_hi c_hi by simp
    then have "real i * d \<le> real i * (1004001 / 10 ^ 9)"
      by (intro mult_left_mono) simp_all
    then have "a \<le> real i * (1004001 / 10 ^ 9)" by (simp add: a_def)
    then have up: "ri * 1000 + 1 / 2 < of_int (int i) + 1"
      using ri_hi i99 by simp
    have "999999999 / 10 ^ 12 \<le> d" using d_lo c by simp
    then have "real j * (999999999 / 10 ^ 12) \<le> real j * d"
      by (intro mult_left_mono) simp_all
    then have "real j * (999999999 / 10 ^ 12) \<le> b" by (simp add: b_def)
    then have lo: "of_int (int j) \<le> rj * 1000 + 1 / 2"
      using rj_lo j100 by simp
    have fi: "\<lfloor>ri * 1000 + 1 / 2\<rfloor> \<le> int i"
      using up by (simp only: floor_le_iff)
    have fj: "int j \<le> \<lfloor>rj * 1000 + 1 / 2\<rfloor>"
      using lo by (simp only: le_floor_iff)
    have rj0: "0 \<le> rj" using ri0 ri_hi rj_lo ab a0 d0 b100 by (simp add: rj_def nearest_nonneg b_def)
    have small: "ri < 10 ^ 21" "rj < 10 ^ 21"
      using up i99 rj_hi b100 \<open>d \<le> 1004001 / 10 ^ 9\<close> by simp_all
    have "\<lfloor>ri * 1000 + 1 / 2\<rfloor> < \<lfloor>rj * 1000 + 1 / 2\<rfloor>"
      using fi fj assms(2) by linarith
    then have "(of_int \<lfloor>ri * 1000 + 1 / 2\<rfloor> :: real) < of_int \<lfloor>rj * 1000 + 1 / 2\<rfloor>"
      by (simp only: of_int_less_iff)
    then show ?thesis
      using small ri0 rj0 by (simp add: round3_nonneg divide_strict_right_mono)
  qed
  then show ?thesis
    by (simp add: ri_def rj_def a_def b_def d_def c_def)
qed

lemma station_finite:
  assumes "1 / 10 \<le> l" "l < 2 ^ 1024" "i \<le> 99"
  shows "binary64 (real i * nearest (l / 100))
         = Fin (nearest (real i * nearest (l / 100)))"
proof -
  define c where "c = l / 100"
  define d where "d = nearest c"
  have c: "1 / 1000 \<le> c" using assms(1) by (simp add: c_def)
  have n: "(2::real) powi (- 1022) \<le> 1 / 2000" by simp
  have cn: "2 powi (- 1022) \<le> c" using c n by linarith
  have d_lo: "c - c / 10 ^ 9 \<le> d" and d_hi: "d \<le> c + c / 10 ^ 9"
    using nearest_within [OF cn] by (simp_all add: d_def)
  have d0: "0 \<le> d" using d_lo c by simp
  define a where "a = real i * d"
  have "real i * d \<le> 99 * d"
    using d0 assms(3) by (intro mult_right_mono) simp_all
  then have a99: "a \<le> 99 * d" by (simp add: a_def)
  have "nearest a \<le> a + a / 10 ^ 9"
    using station_within [OF c, of i] by (simp add: d_def a_def)
  then have "nearest a < 100 * c"
    using a99 d_hi c by simp
  then have "nearest (real i * d) < 100 * c" by (simp add: a_def)
  then have "nearest (real i * d) < 2 ^ 1024"
    using assms(2) by (simp add: c_def)
  moreover have "0 \<le> real i * d" using d0 by simp
  ultimately have "binary64 (real i * d) = Fin (nearest (real i * d))"
    by (intro binary64_finite)
  then show ?thesis by (simp add: d_def c_def)
qed




section \<open>A distributed load without a length\<close>

lemma reaction_step_skip:
  "load_type d = Distributed \<Longrightarrow> \<not> truthy (load_length d) \<Longrightarrow> reaction_step s d r = r"
  by (cases "load_length d") (simp_all add: reaction_step_def Let_def)

lemma shear_step_skip:
  "load_type d = Distributed \<Longrightarrow> \<not> truthy (load_length d) \<Longrightarrow> shear_step x d v = v"
  by (cases "load_length d") (simp_all add: shear_step_def Let_def)

lemma moment_step_skip:
  "load_type d = Distributed \<Longrightarrow> \<not> truthy (load_length d) \<Longrightarrow> moment_step x d m = m"
  by (cases "load_length d") (simp_all add: moment_step_def Let_def)

lemma fixedEndMoment_step_skip:
  "load_type d = Distributed \<Longrightarrow> fixedEndMoment_step s d m = m"
  by (simp add: fixedEndMoment_step_def Let_def)

lemma calculateReactions_drop:
  assumes "load_type d = Distributed" "\<not> truthy (load_length d)" "loads s = xs @ d # ys"
  shows "calculateReactions s = calculateReactions (s\<lparr>loads := xs @ ys\<rparr>)"
proof -
  have p: "primaryReactions s = primaryReactions (s\<lparr>loads := xs @ ys\<rparr>)"
    using assms by (simp add: primaryReactions_def reaction_step_skip)
  have f: "fixedEndMoments s = fixedEndMoments (s\<lparr>loads := xs @ ys\<rparr>)"
    using assms by (simp add: fixedEndMoments_def fixedEndMoment_step_skip)
  show ?thesis
    by (simp add: calculateReactions_def p f)
qed

lemma calculateShear_drop:
  assumes "load_type d = Distributed" "\<not> truthy (load_length d)" "loads s = xs @ d # ys"
  shows "calculateShear s x = calculateShear (s\<lparr>loads := xs @ ys\<rparr>) x"
  using assms by (simp add: calculateShear_def shear_step_skip)

lemma calculateMoment_drop:
  assumes "load_type d = Distributed" "\<not> truthy (load_length d)" "loads s = xs @ d # ys"
  shows "calculateMoment s x = calculateMoment (s\<lparr>loads := xs @ ys\<rparr>) x"
  using assms by (simp add: calculateMoment_def moment_step_skip Let_def)

text \<open>
  C10. A distributed load whose length is absent, 0 or NaN (a falsy length) is ignored:
  wherever it stands in the load list, \<open>calculateReactions\<close>, \<open>calculateShear\<close> and
  \<open>calculateMoment\<close> return what they return on the list without it, both with the
  stored reactions left as they are and with the reactions recomputed and stored.
\<close>

theorem distributed_without_length_ignored:
  assumes "load_type d = Distributed" "\<not> truthy (load_length d)" "loads s = xs @ d # ys"
  shows "calculateReactions s = calculateReactions (s\<lparr>loads := xs @ ys\<rparr>)
   \<and> calculateShear s x = calculateShear (s\<lparr>loads := xs @ ys\<rparr>) x
   \<and> calculateMoment s x = calculateMoment (s\<lparr>loads := xs @ ys\<rparr>) x
   \<and> calculateShear (updateReactions s) x
       = calculateShear (updateReactions (s\<lparr>loads := xs @ ys\<rparr>)) x
   \<and> calculateMoment (updateReactions s) x
       = calculateMoment (updateReactions (s\<lparr>loads := xs @ ys\<rparr>)) x"
proof -
  let ?t = "s\<lparr>loads := xs @ ys\<rparr>"
  have r: "calculateReactions s = calculateReactions ?t"
    using assms by (rule calculateReactions_drop)
  have u: "updateReactions ?t = (updateReactions s)\<lparr>loads := xs @ ys\<rparr>"
    by (simp add: updateReactions_def r)
  have l: "loads (updateReactions s) = xs @ d # ys"
    using assms(3) by (simp add: updateReactions_def)
  show ?thesis
    using r calculateShear_drop [OF assms] calculateMoment_drop [OF assms]
      calculateShear_drop [OF assms(1,2) l] calculateMoment_drop [OF assms(1,2) l]
    by (simp add: u)
qed

theorem distributed_without_length_ignored_witness:
  "load_type emptyDistributed = Distributed
   \<and> truthy (load_length emptyDistributed) = False
   \<and> loads withEmptyDistributed = [pointLoad 1 2.5 50] @ emptyDistributed # []
   \<and> calculateReactions withEmptyDistributed = calculateReactions initialBeam
   \<and> calculateShear (updateReactions withEmptyDistributed) (Fin 2)
       = calculateShear (updateReactions initialBeam) (Fin 2)
   \<and> calculateMoment (updateReactions withEmptyDistributed) (Fin 2)
       = calculateMoment (updateReactions initialBeam) (Fin 2)"
proof -
  have a: "load_type emptyDistributed = Distributed"
    by (simp add: emptyDistributed_def)
  have b: "\<not> truthy (load_length emptyDistributed)"
    by (simp add: emptyDistributed_def)
  have c: "loads withEmptyDistributed = [pointLoad 1 2.5 50] @ emptyDistributed # []"
    by (simp add: withEmptyDistributed_def)
  have i: "withEmptyDistributed\<lparr>loads := [pointLoad 1 2.5 50] @ []\<rparr> = initialBeam"
    by (simp add: withEmptyDistributed_def initialBeam_def)
  show ?thesis
    using distributed_without_length_ignored [OF a b c, of "Fin 2"] a b c i
    by simp
qed

end
